theory Spec2Isabelle
  imports Complex_Main
begin

section \<open>The Taskade export pipeline (export_to_taskade.py)\<close>

text \<open>
  The script reads the active rows of \<open>memory_entries\<close>, turns each row into a JSON
  payload, posts it to a webhook with a bounded retry on HTTP 429, and sleeps between
  records. The model keeps the script's names. Everything the script does to the outside
  world (an HTTP request, a \<open>time.sleep\<close>) is recorded, in order, in an explicit
  \<open>world\<close> value that every function takes and returns.
\<close>

subsection \<open>Configuration constants\<close>

definition BATCH_SIZE :: int where
  "BATCH_SIZE = 1"

definition DELAY_BETWEEN_BATCHES :: nat where
  "DELAY_BETWEEN_BATCHES = 5"

definition DELAY_ON_ERROR :: nat where
  "DELAY_ON_ERROR = 120"

subsection \<open>Rows and payloads\<close>

text \<open>
  A row of the second query, in column order (\<open>row[0]\<close> to \<open>row[7]\<close>). Every column
  is nullable as far as the script can tell, so every field is an option: \<open>None\<close> is SQL
  NULL. The numeric \<open>confidence\<close> column is kept as a real number; the rounding that
  Python's \<open>float()\<close> performs is not modelled.
\<close>

record row =
  row_content :: "string option"
  row_type :: "string option"
  row_importance :: "int option"
  row_confidence :: "real option"
  row_support_count :: "int option"
  row_status :: "string option"
  row_is_protected :: "bool option"
  row_source :: "string option"

text \<open>The dictionary \<open>memory_data\<close>; its keys are the field names.\<close>

record memory_data =
  memoryContent :: "string option"
  memoryType :: string
  importance :: "int option"
  confidence :: real
  supportCount :: "int option"
  status :: string
  isProtected :: string
  source :: string

text \<open>
  \<open>str.lower()\<close>. On a text of ASCII characters only it turns \<open>A\<close> to \<open>Z\<close> into
  \<open>a\<close> to \<open>z\<close> and leaves every other character. On any other text Python applies
  the case mapping of the Unicode database, a table of the Python runtime and not of this
  repository: it is the parameter \<open>ulower\<close>, about which nothing is assumed. Strings are
  byte lists (UTF-8), so a byte of 128 or more marks a non-ASCII character.
\<close>

definition lower_char :: "char \<Rightarrow> char" where
  "lower_char c =
     (let n = (of_char c :: nat)
      in if 65 \<le> n \<and> n \<le> 90 then char_of (n + 32) else c)"

definition is_ascii :: "char \<Rightarrow> bool" where
  "is_ascii c = ((of_char c :: nat) < 128)"

definition lower :: "(string \<Rightarrow> string) \<Rightarrow> string \<Rightarrow> string" where
  "lower ulower s = (if list_all is_ascii s then map lower_char s else ulower s)"

text \<open>Python truthiness of a nullable string: \<open>None\<close> and the empty string are false.\<close>

fun truthy_str :: "string option \<Rightarrow> bool" where
  "truthy_str None = False"
| "truthy_str (Some s) = (s \<noteq> [])"

text \<open>Lines 107 to 116: the dictionary built from one row.\<close>

definition make_memory_data :: "(string \<Rightarrow> string) \<Rightarrow> row \<Rightarrow> memory_data" where
  "make_memory_data ulower r =
     \<lparr> memoryContent = row_content r,
       memoryType = (if truthy_str (row_type r) then lower ulower (the (row_type r)) else ''fact''),
       importance = row_importance r,
       confidence = (case row_confidence r of Some x \<Rightarrow> x | None \<Rightarrow> 0),
       supportCount = row_support_count r,
       status = (if truthy_str (row_status r) then lower ulower (the (row_status r)) else ''active''),
       isProtected = (if row_is_protected r = Some True then ''yes'' else ''no''),
       source = (if truthy_str (row_source r) then the (row_source r) else ''postgresql_export'') \<rparr>"

subsection \<open>The outside world\<close>

text \<open>
  What one call of \<open>requests.post\<close> gives back: a response with its status code, or a
  \<open>requests.exceptions.RequestException\<close> (timeout, connection error, ...).
\<close>

datatype http_result = Response int | RequestException

text \<open>
  The webhook is any function from the number of the request (counted from the start of
  the run) and the payload sent to the result of that request.
\<close>

type_synonym webhook = "nat \<Rightarrow> memory_data \<Rightarrow> http_result"

datatype event = Post memory_data | Sleep nat

record world =
  requests_made :: nat
  events :: "event list"

definition do_post :: "memory_data \<Rightarrow> world \<Rightarrow> world" where
  "do_post d w = w\<lparr>requests_made := Suc (requests_made w), events := events w @ [Post d]\<rparr>"

definition do_sleep :: "nat \<Rightarrow> world \<Rightarrow> world" where
  "do_sleep n w = w\<lparr>events := events w @ [Sleep n]\<rparr>"

text \<open>
  The only exception the code can raise on a typed row: slicing
  \<open>memory_data['memoryContent'][:50]\<close> when the content is \<open>None\<close>.
\<close>

datatype py_error = TypeError

text \<open>The f-strings of lines 69, 72 and 121 slice the content; nothing else of a print is kept.\<close>

definition print_content :: "memory_data \<Rightarrow> py_error + unit" where
  "print_content d = (case memoryContent d of None \<Rightarrow> Inl TypeError | Some s \<Rightarrow> Inr ())"

subsection \<open>send_memory (lines 51 to 77)\<close>

text \<open>
  The \<open>try\<close> block catches \<open>RequestException\<close> only, so a \<open>TypeError\<close> raised by a
  print leaves the function as an exception (\<open>Inl\<close>). The recursion is the source's own;
  it terminates because \<open>3 - retry_count\<close> decreases.
\<close>

function send_memory :: "webhook \<Rightarrow> memory_data \<Rightarrow> int \<Rightarrow> world \<Rightarrow> (py_error + bool) \<times> world" where
  "send_memory post d retry_count w =
     (case post (requests_made w) d of
        RequestException \<Rightarrow> (Inr False, do_post d w)
      | Response status_code \<Rightarrow>
          if status_code = 200 then (Inr True, do_post d w)
          else if status_code = 429 then
            (if retry_count < 3
             then send_memory post d (retry_count + 1) (do_sleep DELAY_ON_ERROR (do_post d w))
             else (case print_content d of
                     Inl e \<Rightarrow> (Inl e, do_post d w)
                   | Inr _ \<Rightarrow> (Inr False, do_post d w)))
          else (case print_content d of
                  Inl e \<Rightarrow> (Inl e, do_post d w)
                | Inr _ \<Rightarrow> (Inr False, do_post d w)))"
  by pat_completeness auto
termination
  by (relation "measure (\<lambda>(post, d, retry_count, w). nat (3 - retry_count))") auto

subsection \<open>export_memories (lines 79 to 150)\<close>

text \<open>The counters of the loop.\<close>

record counters =
  success_count :: int
  fail_count :: int
  batch_count :: int

text \<open>
  One iteration of the \<open>for\<close> loop (lines 107 to 129) for the row numbered \<open>i\<close>
  (from 1). \<open>total_count\<close> is the result of the \<open>COUNT(*)\<close> query.
\<close>

definition loop_body :: "(string \<Rightarrow> string) \<Rightarrow> webhook \<Rightarrow> int \<Rightarrow> int \<Rightarrow> row \<Rightarrow> counters \<Rightarrow> world \<Rightarrow> (py_error + counters) \<times> world" where
  "loop_body ulower post total_count i r c w =
     (let d = make_memory_data ulower r in
      case send_memory post d 0 w of
        (Inl e, w1) \<Rightarrow> (Inl e, w1)
      | (Inr ok, w1) \<Rightarrow>
          (case (if ok
                 then (case print_content d of
                         Inl e \<Rightarrow> Inl e
                       | Inr _ \<Rightarrow> Inr (c\<lparr>success_count := success_count c + 1\<rparr>))
                 else Inr (c\<lparr>fail_count := fail_count c + 1\<rparr>)) of
             Inl e \<Rightarrow> (Inl e, w1)
           | Inr c1 \<Rightarrow>
               if i mod BATCH_SIZE = 0 \<and> i < total_count
               then (Inr (c1\<lparr>batch_count := batch_count c1 + 1\<rparr>), do_sleep DELAY_BETWEEN_BATCHES w1)
               else (Inr c1, w1)))"

text \<open>The \<open>for\<close> loop over the rows still to process; an exception ends it.\<close>

fun export_loop :: "(string \<Rightarrow> string) \<Rightarrow> webhook \<Rightarrow> int \<Rightarrow> int \<Rightarrow> row list \<Rightarrow> counters \<Rightarrow> world \<Rightarrow> (py_error + counters) \<times> world" where
  "export_loop ulower post total_count i [] c w = (Inr c, w)"
| "export_loop ulower post total_count i (r # rs) c w =
     (case loop_body ulower post total_count i r c w of
        (Inl e, w1) \<Rightarrow> (Inl e, w1)
      | (Inr c1, w1) \<Rightarrow> export_loop ulower post total_count (i + 1) rs c1 w1)"

text \<open>The four numbers of the final summary (lines 135 to 138).\<close>

record summary =
  successful :: int
  failed :: int
  total_reported :: int
  total_batches :: int

definition counters0 :: counters where
  "counters0 = \<lparr>success_count = 0, fail_count = 0, batch_count = 0\<rparr>"

text \<open>
  \<open>export_memories\<close> after the two queries have answered: \<open>total_count\<close> is the count,
  \<open>memories\<close> the fetched rows. An exception inside the loop is caught by the outer
  \<open>except Exception\<close>: the run ends without a summary (\<open>Inl\<close>).
\<close>

definition export_memories :: "(string \<Rightarrow> string) \<Rightarrow> webhook \<Rightarrow> int \<Rightarrow> row list \<Rightarrow> world \<Rightarrow> (py_error + summary) \<times> world" where
  "export_memories ulower post total_count memories w =
     (case export_loop ulower post total_count 1 memories counters0 w of
        (Inl e, w1) \<Rightarrow> (Inl e, w1)
      | (Inr c, w1) \<Rightarrow>
          (Inr \<lparr> successful = success_count c,
                 failed = fail_count c,
                 total_reported = total_count,
                 total_batches = (if total_count > 0 then batch_count c + 1 else 0) \<rparr>, w1))"

subsection \<open>Observers of a run\<close>

text \<open>The payloads posted, in order, and the number of sleeps of a given length.\<close>

definition posts_of :: "event list \<Rightarrow> memory_data list" where
  "posts_of evs = concat (map (\<lambda>e. case e of Post d \<Rightarrow> [d] | Sleep n \<Rightarrow> []) evs)"

definition count_sleeps :: "nat \<Rightarrow> event list \<Rightarrow> nat" where
  "count_sleeps n evs = length (filter (\<lambda>e. e = Sleep n) evs)"

text \<open>
  The events of \<open>k\<close> attempts on one payload: a post, then for every further attempt
  a cool-down and a post; nothing after the last post.
\<close>

fun attempt_trace :: "memory_data \<Rightarrow> nat \<Rightarrow> event list" where
  "attempt_trace d 0 = []"
| "attempt_trace d (Suc 0) = [Post d]"
| "attempt_trace d (Suc (Suc k)) = Post d # Sleep DELAY_ON_ERROR # attempt_trace d (Suc k)"

text \<open>The sleep of lines 126 to 129, when the row numbered \<open>i\<close> is not the last counted.\<close>

definition pace_events :: "int \<Rightarrow> int \<Rightarrow> event list" where
  "pace_events i total_count = (if i < total_count then [Sleep DELAY_BETWEEN_BATCHES] else [])"

text \<open>
  The data model requires the content of a record; the script relies on it whenever it
  prints a slice of the content.
\<close>

definition well_formed :: "row \<Rightarrow> bool" where
  "well_formed r = (row_content r \<noteq> None)"

subsection \<open>Sample inputs\<close>

definition sample_row :: row where
  "sample_row =
     \<lparr> row_content = Some ''likes tea'', row_type = Some ''Fact'', row_importance = Some 50,
       row_confidence = None, row_support_count = Some 2, row_status = Some ''ACTIVE'',
       row_is_protected = Some True, row_source = None \<rparr>"

definition other_row :: row where
  "other_row = sample_row\<lparr>row_content := Some ''owns a cat'', row_importance := Some 10\<rparr>"

definition world0 :: world where
  "world0 = \<lparr>requests_made = 0, events = []\<rparr>"

text \<open>A stand-in for the Unicode case mapping, and a webhook that accepts every request.\<close>

definition sample_lower :: "string \<Rightarrow> string" where
  "sample_lower s = s"


section \<open>Properties\<close>

declare send_memory.simps [simp del]

subsection \<open>Auxiliary facts\<close>

lemma posts_of_append [simp]: "posts_of (xs @ ys) = posts_of xs @ posts_of ys"
  by (simp add: posts_of_def)

lemma count_sleeps_append [simp]: "count_sleeps n (xs @ ys) = count_sleeps n xs + count_sleeps n ys"
  by (simp add: count_sleeps_def)

lemma posts_of_attempt_trace: "posts_of (attempt_trace d k) = replicate k d"
  by (induction d k rule: attempt_trace.induct) (simp_all add: posts_of_def)

lemma cooldowns_attempt_trace: "count_sleeps DELAY_ON_ERROR (attempt_trace d k) = k - 1"
  by (induction d k rule: attempt_trace.induct) (simp_all add: count_sleeps_def)




lemma send_memory_world:
  "\<exists>k. 1 \<le> k \<and> int k \<le> max 1 (4 - retry_count) \<and>
       snd (send_memory post d retry_count w) =
         w\<lparr>requests_made := requests_made w + k, events := events w @ attempt_trace d k\<rparr>"
proof (induction post d retry_count w rule: send_memory.induct)
  case (1 post d retry_count w)
  show ?case
  proof (cases "post (requests_made w) d")
    case RequestException
    then have "snd (send_memory post d retry_count w) = do_post d w"
      by (simp add: send_memory.simps)
    then show ?thesis
      by (intro exI [of _ 1]) (simp add: do_post_def)
  next
    case (Response sc)
    show ?thesis
    proof (cases "sc = 429 \<and> retry_count < 3")
      case False
      with Response have "snd (send_memory post d retry_count w) = do_post d w"
        by (auto simp add: send_memory.simps split: sum.splits)
      then show ?thesis
        by (intro exI [of _ 1]) (simp add: do_post_def)
    next
      case True
      let ?w2 = "do_sleep DELAY_ON_ERROR (do_post d w)"
      from True Response have unfold:
        "send_memory post d retry_count w = send_memory post d (retry_count + 1) ?w2"
        by (simp add: send_memory.simps)
      from "1.IH" [OF Response] True obtain k where k: "1 \<le> k" "int k \<le> max 1 (4 - (retry_count + 1))"
        and w2: "snd (send_memory post d (retry_count + 1) ?w2) =
                 ?w2\<lparr>requests_made := requests_made ?w2 + k, events := events ?w2 @ attempt_trace d k\<rparr>"
        by auto
      from k obtain k' where k': "k = Suc k'" by (cases k) auto
      have "snd (send_memory post d retry_count w) =
            w\<lparr>requests_made := requests_made w + Suc k, events := events w @ attempt_trace d (Suc k)\<rparr>"
        using w2 by (simp add: unfold k' do_post_def do_sleep_def)
      moreover have "int (Suc k) \<le> max 1 (4 - retry_count)"
        using k True by simp
      ultimately show ?thesis
        by (intro exI [of _ "Suc k"]) simp
    qed
  qed
qed

lemma send_memory_returns:
  "memoryContent d \<noteq> None \<Longrightarrow> \<exists>ok. fst (send_memory post d retry_count w) = Inr ok"
proof (induction post d retry_count w rule: send_memory.induct)
  case (1 post d retry_count w)
  show ?case
  proof (cases "post (requests_made w) d")
    case RequestException
    then show ?thesis by (auto simp add: send_memory.simps)
  next
    case (Response sc)
    show ?thesis
    proof (cases "sc = 429 \<and> retry_count < 3")
      case False
      with Response "1.prems" show ?thesis
        by (auto simp add: send_memory.simps print_content_def split: sum.splits)
    next
      case True
      with Response have
        "send_memory post d retry_count w =
         send_memory post d (retry_count + 1) (do_sleep DELAY_ON_ERROR (do_post d w))"
        by (simp add: send_memory.simps)
      with "1.IH" [OF Response] True "1.prems" show ?thesis by simp
    qed
  qed
qed

lemma memoryContent_make [simp]: "memoryContent (make_memory_data ulower r) = row_content r"
  by (simp add: make_memory_data_def)

lemma send_memory_pair:
  assumes "memoryContent d \<noteq> None"
  shows "\<exists>ok k. 1 \<le> k \<and> k \<le> 4 \<and>
           send_memory post d 0 w =
             (Inr ok, w\<lparr>requests_made := requests_made w + k, events := events w @ attempt_trace d k\<rparr>)"
proof -
  from send_memory_returns [OF assms] obtain ok where ok: "fst (send_memory post d 0 w) = Inr ok"
    by blast
  from send_memory_world [of 0 post d w] obtain k where k: "1 \<le> k" "int k \<le> max 1 (4 - 0)"
    and w: "snd (send_memory post d 0 w) =
            w\<lparr>requests_made := requests_made w + k, events := events w @ attempt_trace d k\<rparr>"
    by blast
  from k have "k \<le> 4" by simp
  moreover from ok w have "send_memory post d 0 w =
      (Inr ok, w\<lparr>requests_made := requests_made w + k, events := events w @ attempt_trace d k\<rparr>)"
    by (simp add: prod_eq_iff)
  ultimately show ?thesis using k(1) by blast
qed

lemma loop_body_char:
  assumes "well_formed r"
  shows "\<exists>ok k. 1 \<le> k \<and> k \<le> 4 \<and>
           loop_body ulower post total_count i r c w =
             (Inr (c\<lparr>success_count := success_count c + (if ok then 1 else 0),
                      fail_count := fail_count c + (if ok then 0 else 1),
                      batch_count := batch_count c + (if i < total_count then 1 else 0)\<rparr>),
              w\<lparr>requests_made := requests_made w + k,
                events := events w @ attempt_trace (make_memory_data ulower r) k @ pace_events i total_count\<rparr>)"
proof -
  from assms have "memoryContent (make_memory_data ulower r) \<noteq> None"
    by (simp add: well_formed_def)
  from send_memory_pair [OF this, of post w] obtain ok k where k: "1 \<le> k" "k \<le> 4"
    and s: "send_memory post (make_memory_data ulower r) 0 w =
            (Inr ok, w\<lparr>requests_made := requests_made w + k,
                       events := events w @ attempt_trace (make_memory_data ulower r) k\<rparr>)"
    by blast
  from assms have "loop_body ulower post total_count i r c w =
             (Inr (c\<lparr>success_count := success_count c + (if ok then 1 else 0),
                      fail_count := fail_count c + (if ok then 0 else 1),
                      batch_count := batch_count c + (if i < total_count then 1 else 0)\<rparr>),
              w\<lparr>requests_made := requests_made w + k,
                events := events w @ attempt_trace (make_memory_data ulower r) k @ pace_events i total_count\<rparr>)"
    by (auto simp add: loop_body_def s print_content_def BATCH_SIZE_def pace_events_def
          do_sleep_def well_formed_def)
  with k show ?thesis by blast
qed




lemma export_loop_append:
  "export_loop ulower post total_count i (xs @ ys) c w =
     (case export_loop ulower post total_count i xs c w of
        (Inl e, w1) \<Rightarrow> (Inl e, w1)
      | (Inr c1, w1) \<Rightarrow> export_loop ulower post total_count (i + int (length xs)) ys c1 w1)"
proof (induction xs arbitrary: i c w)
  case Nil
  show ?case by simp
next
  case (Cons x xs)
  show ?case
  proof (cases "loop_body ulower post total_count i x c w")
    case (Pair res w1)
    show ?thesis
    proof (cases res)
      case (Inl e)
      with Pair show ?thesis by simp
    next
      case (Inr c1)
      have idx: "i + int (length (x # xs)) = i + 1 + int (length xs)" by simp
      show ?thesis unfolding idx
        using Pair Inr Cons.IH [of "i + 1" c1 w1] by simp
    qed
  qed
qed

lemma loop_body_sum:
  assumes "loop_body ulower post total_count i r c w = (Inr c1, w1)"
  shows "success_count c1 + fail_count c1 = success_count c + fail_count c + 1"
  using assms
  by (auto simp add: loop_body_def Let_def split: prod.splits sum.splits if_splits)

lemma export_loop_sum:
  assumes "export_loop ulower post total_count i rows c w = (Inr c1, w1)"
  shows "success_count c1 + fail_count c1 = success_count c + fail_count c + int (length rows)"
  using assms
proof (induction rows arbitrary: i c w)
  case Nil
  then show ?case by simp
next
  case (Cons r rs)
  from Cons.prems obtain c2 w2 where body: "loop_body ulower post total_count i r c w = (Inr c2, w2)"
    and loop: "export_loop ulower post total_count (i + 1) rs c2 w2 = (Inr c1, w1)"
    by (auto split: prod.splits sum.splits)
  from Cons.IH [OF loop] loop_body_sum [OF body] show ?case by simp
qed

lemma export_loop_posts:
  assumes "list_all well_formed rows"
  shows "\<exists>c1 w1 ks. export_loop ulower post total_count i rows c w = (Inr c1, w1) \<and>
           length ks = length rows \<and> list_all (\<lambda>k. 1 \<le> k \<and> k \<le> 4) ks \<and>
           requests_made w1 = requests_made w + sum_list ks \<and>
           posts_of (events w1) =
             posts_of (events w) @ concat (map2 (\<lambda>r k. replicate k (make_memory_data ulower r)) rows ks)"
  using assms
proof (induction rows arbitrary: i c w)
  case Nil
  then show ?case by simp
next
  case (Cons r rs)
  then have wf: "well_formed r" and rest: "list_all well_formed rs" by simp_all
  from loop_body_char [OF wf, of ulower post total_count i c w] obtain k c1 w1
    where k: "1 \<le> k" "k \<le> 4"
      and body: "loop_body ulower post total_count i r c w = (Inr c1, w1)"
      and w1: "w1 = w\<lparr>requests_made := requests_made w + k,
                events := events w @ attempt_trace (make_memory_data ulower r) k @ pace_events i total_count\<rparr>"
    by blast
  from Cons.IH [OF rest, of "i + 1" c1 w1] obtain c2 w2 ks
    where loop: "export_loop ulower post total_count (i + 1) rs c1 w1 = (Inr c2, w2)"
      and ks: "length ks = length rs" "list_all (\<lambda>k. 1 \<le> k \<and> k \<le> 4) ks"
      and req: "requests_made w2 = requests_made w1 + sum_list ks"
      and posts: "posts_of (events w2) =
             posts_of (events w1) @ concat (map2 (\<lambda>r k. replicate k (make_memory_data ulower r)) rs ks)"
    by blast
  have pace: "posts_of (pace_events i total_count) = []"
    by (simp add: pace_events_def posts_of_def)
  have "export_loop ulower post total_count i (r # rs) c w = (Inr c2, w2)"
    by (simp add: body loop)
  moreover have "length (k # ks) = length (r # rs)" using ks by simp
  moreover have "list_all (\<lambda>k. 1 \<le> k \<and> k \<le> 4) (k # ks)" using k ks by simp
  moreover have "requests_made w2 = requests_made w + sum_list (k # ks)"
    using req w1 by simp
  moreover have "posts_of (events w2) =
      posts_of (events w) @ concat (map2 (\<lambda>r k. replicate k (make_memory_data ulower r)) (r # rs) (k # ks))"
    using posts w1 by (simp add: posts_of_attempt_trace pace)
  ultimately show ?case by blast
qed


lemma lower_Fact: "lower ulower ''Fact'' = ''fact''"
  by code_simp


lemma export_memories_from_loop:
  "export_loop ulower post total_count 1 memories counters0 w = (Inr c, w1) \<Longrightarrow>
   export_memories ulower post total_count memories w =
     (Inr \<lparr> successful = success_count c, failed = fail_count c, total_reported = total_count,
            total_batches = (if total_count > 0 then batch_count c + 1 else 0) \<rparr>, w1)"
  by (simp add: export_memories_def)

lemma failed_delivery_counted:
  assumes "fst (send_memory post (make_memory_data ulower r) 0 w) = Inr False"
  shows "\<exists>c1 w1. loop_body ulower post total_count i r c w = (Inr c1, w1) \<and>
           fail_count c1 = fail_count c + 1 \<and> success_count c1 = success_count c \<and>
           export_loop ulower post total_count i (r # rs) c w = export_loop ulower post total_count (i + 1) rs c1 w1"
proof -
  obtain w2 where s: "send_memory post (make_memory_data ulower r) 0 w = (Inr False, w2)"
    using assms by (cases "send_memory post (make_memory_data ulower r) 0 w") simp
  obtain c1 w1 where body: "loop_body ulower post total_count i r c w = (Inr c1, w1)"
    and c1: "fail_count c1 = fail_count c + 1" "success_count c1 = success_count c"
    by (cases "i mod BATCH_SIZE = 0 \<and> i < total_count") (simp_all add: loop_body_def s)
  then show ?thesis by simp
qed

lemma loop_body_posts:
  "\<exists>res w1 k. loop_body ulower post total_count i r c w = (res, w1) \<and> 1 \<le> k \<and> k \<le> 4 \<and>
      posts_of (events w1) = posts_of (events w) @ replicate k (make_memory_data ulower r)"
proof -
  let ?d = "make_memory_data ulower r"
  from send_memory_world [of 0 post ?d w] obtain k where k: "1 \<le> k" "int k \<le> max 1 (4 - 0)"
    and w: "snd (send_memory post ?d 0 w) =
            w\<lparr>requests_made := requests_made w + k, events := events w @ attempt_trace ?d k\<rparr>"
    by blast
  obtain res0 w0 where s: "send_memory post ?d 0 w = (res0, w0)"
    by (cases "send_memory post ?d 0 w")
  with w have p0: "posts_of (events w0) = posts_of (events w) @ replicate k ?d"
    by (simp add: posts_of_attempt_trace)
  have "posts_of (events (snd (loop_body ulower post total_count i r c w))) = posts_of (events w0)"
    by (simp add: loop_body_def s do_sleep_def posts_of_def split: sum.splits)
  with p0 k show ?thesis
    by (intro exI [of _ "fst (loop_body ulower post total_count i r c w)"]
              exI [of _ "snd (loop_body ulower post total_count i r c w)"] exI [of _ k]) simp
qed

subsection \<open>Run accounting\<close>

text \<open>
  C1. At every point of the loop the two counters add up to the number of records
  processed so far: when the loop has gone through a prefix \<open>seen\<close> of the fetched
  rows and holds the counters \<open>c\<close>, then \<open>success_count c + fail_count c\<close> is the
  length of \<open>seen\<close>, and the run continues from exactly that state with the remaining
  rows. At completion the two numbers of the summary add up to the number of rows fetched.
\<close>

theorem counters_account_for_processed:
  "(memories = seen @ rest \<and> export_loop ulower post total_count 1 seen counters0 w = (Inr c, w1) \<longrightarrow>
      success_count c + fail_count c = int (length seen) \<and>
      export_loop ulower post total_count 1 memories counters0 w =
        export_loop ulower post total_count (1 + int (length seen)) rest c w1) \<and>
   (export_memories ulower post total_count memories w = (Inr s, w2) \<longrightarrow>
      successful s + failed s = int (length memories))"
proof (intro conjI impI)
  assume a: "memories = seen @ rest \<and> export_loop ulower post total_count 1 seen counters0 w = (Inr c, w1)"
  from export_loop_sum [of ulower post total_count 1 seen counters0 w c w1] a
  show "success_count c + fail_count c = int (length seen)"
    by (simp add: counters0_def)
  from a show "export_loop ulower post total_count 1 memories counters0 w =
        export_loop ulower post total_count (1 + int (length seen)) rest c w1"
    by (simp add: export_loop_append)
next
  assume "export_memories ulower post total_count memories w = (Inr s, w2)"
  then obtain c where "export_loop ulower post total_count 1 memories counters0 w = (Inr c, w2)"
    and "s = \<lparr> successful = success_count c, failed = fail_count c, total_reported = total_count,
               total_batches = (if total_count > 0 then batch_count c + 1 else 0) \<rparr>"
    by (auto simp add: export_memories_def split: prod.splits sum.splits)
  with export_loop_sum [of ulower post total_count 1 memories counters0 w c w2]
  show "successful s + failed s = int (length memories)"
    by (simp add: counters0_def)
qed

theorem counters_account_for_processed_witness:
  "export_loop sample_lower (\<lambda>n d. if n = 0 then Response 200 else Response 404) 2 1 [sample_row] counters0 world0 =
     (Inr \<lparr>success_count = 1, fail_count = 0, batch_count = 1\<rparr>,
      \<lparr>requests_made = 1, events = [Post (make_memory_data sample_lower sample_row), Sleep 5]\<rparr>) \<and>
   success_count \<lparr>success_count = 1, fail_count = 0, batch_count = 1\<rparr>
     + fail_count \<lparr>success_count = 1, fail_count = 0, batch_count = 1\<rparr> = int (length [sample_row]) \<and>
   export_memories sample_lower (\<lambda>n d. if n = 0 then Response 200 else Response 404) 2 [sample_row, other_row] world0 =
     (Inr \<lparr>successful = 1, failed = 1, total_reported = 2, total_batches = 2\<rparr>,
      \<lparr>requests_made = 2,
        events = [Post (make_memory_data sample_lower sample_row), Sleep 5, Post (make_memory_data sample_lower other_row)]\<rparr>) \<and>
   successful \<lparr>successful = 1, failed = 1, total_reported = 2, total_batches = 2\<rparr>
     + failed \<lparr>successful = 1, failed = 1, total_reported = 2, total_batches = 2\<rparr>
     = int (length [sample_row, other_row])"
proof -
  let ?post = "\<lambda>(n::nat) (d::memory_data). if n = 0 then Response 200 else Response 404"
  let ?c = "\<lparr>success_count = 1, fail_count = 0, batch_count = 1\<rparr>"
  let ?w1 = "\<lparr>requests_made = 1, events = [Post (make_memory_data sample_lower sample_row), Sleep 5]\<rparr>"
  let ?s = "\<lparr>successful = 1, failed = 1, total_reported = 2, total_batches = 2\<rparr>"
  let ?w2 = "\<lparr>requests_made = 2,
        events = [Post (make_memory_data sample_lower sample_row), Sleep 5, Post (make_memory_data sample_lower other_row)]\<rparr>"
  have a: "export_loop sample_lower ?post 2 1 [sample_row] counters0 world0 = (Inr ?c, ?w1)"
    by code_simp
  have b: "export_memories sample_lower ?post 2 [sample_row, other_row] world0 = (Inr ?s, ?w2)"
    by code_simp
  from counters_account_for_processed
         [where ulower = sample_lower and memories = "[sample_row, other_row]" and seen = "[sample_row]" and rest = "[other_row]"
            and post = ?post and total_count = 2 and w = world0 and c = ?c and ?w1.0 = ?w1
            and s = ?s and ?w2.0 = ?w2] a b
  show ?thesis by simp
qed

subsection \<open>The retry policy\<close>

text \<open>
  C2. A record with content whose attempts are answered 429 four times in a row (the
  first attempt and the three retries): \<open>send_memory\<close>, started with
  \<open>retry_count = 0\<close>, returns \<open>False\<close>; it makes four requests with a cool-down of
  120 between them, three cool-downs in all, and none after the fourth request.
\<close>

theorem rate_limited_on_every_attempt:
  assumes "memoryContent d \<noteq> None"
    and "\<forall>k<4. post (requests_made w + k) d = Response 429"
  shows "send_memory post d 0 w =
           (Inr False,
            w\<lparr>requests_made := requests_made w + 4,
              events := events w @
                [Post d, Sleep 120, Post d, Sleep 120, Post d, Sleep 120, Post d]\<rparr>)"
proof -
  from assms(2) have p0: "post (requests_made w) d = Response 429"
    and p1: "post (Suc (requests_made w)) d = Response 429"
    and p2: "post (Suc (Suc (requests_made w))) d = Response 429"
    and p3: "post (Suc (Suc (Suc (requests_made w)))) d = Response 429"
    using assms(2) [rule_format, of 0] assms(2) [rule_format, of 1]
      assms(2) [rule_format, of 2] assms(2) [rule_format, of 3]
    by (simp_all add: numeral_eq_Suc)
  let ?w1 = "do_sleep DELAY_ON_ERROR (do_post d w)"
  let ?w2 = "do_sleep DELAY_ON_ERROR (do_post d ?w1)"
  let ?w3 = "do_sleep DELAY_ON_ERROR (do_post d ?w2)"
  have "send_memory post d 0 w = send_memory post d 1 ?w1"
    using p0 by (simp add: send_memory.simps [of post d 0])
  also have "\<dots> = send_memory post d 2 ?w2"
    using p1 by (simp add: send_memory.simps [of post d 1] do_post_def do_sleep_def)
  also have "\<dots> = send_memory post d 3 ?w3"
    using p2 by (simp add: send_memory.simps [of post d 2] do_post_def do_sleep_def)
  also have "\<dots> = (Inr False, do_post d ?w3)"
    using p3 assms(1)
    by (auto simp add: send_memory.simps [of post d 3] do_post_def do_sleep_def print_content_def)
  finally show ?thesis
    by (simp add: do_post_def do_sleep_def DELAY_ON_ERROR_def)
qed

theorem rate_limited_on_every_attempt_witness:
  "send_memory (\<lambda>n d. Response 429) (make_memory_data sample_lower sample_row) 0 world0 =
     (Inr False,
      \<lparr>requests_made = 4,
        events = [Post (make_memory_data sample_lower sample_row), Sleep 120,
                  Post (make_memory_data sample_lower sample_row), Sleep 120,
                  Post (make_memory_data sample_lower sample_row), Sleep 120,
                  Post (make_memory_data sample_lower sample_row)]\<rparr>)"
proof -
  have c: "memoryContent (make_memory_data sample_lower sample_row) \<noteq> None"
    by (simp add: sample_row_def)
  have p: "\<forall>k<4. (\<lambda>(n::nat) (d::memory_data). Response 429)
                    (requests_made world0 + k) (make_memory_data sample_lower sample_row) = Response 429"
    by simp
  from rate_limited_on_every_attempt [OF c p] show ?thesis
    by (simp add: world0_def)
qed

text \<open>
  C3. A record whose attempts are answered 429 three times and then 200:
  \<open>send_memory\<close>, started with \<open>retry_count = 0\<close>, returns \<open>True\<close> after four
  requests and exactly three cool-downs of 120.
\<close>

theorem rate_limited_then_accepted:
  assumes "\<forall>k<3. post (requests_made w + k) d = Response 429"
    and "post (requests_made w + 3) d = Response 200"
  shows "send_memory post d 0 w =
           (Inr True,
            w\<lparr>requests_made := requests_made w + 4,
              events := events w @
                [Post d, Sleep 120, Post d, Sleep 120, Post d, Sleep 120, Post d]\<rparr>)"
proof -
  have p0: "post (requests_made w) d = Response 429"
    and p1: "post (Suc (requests_made w)) d = Response 429"
    and p2: "post (Suc (Suc (requests_made w))) d = Response 429"
    using assms(1) [rule_format, of 0] assms(1) [rule_format, of 1] assms(1) [rule_format, of 2]
    by (simp_all add: numeral_eq_Suc)
  from assms(2) have p3: "post (Suc (Suc (Suc (requests_made w)))) d = Response 200"
    by (simp add: numeral_eq_Suc)
  let ?w1 = "do_sleep DELAY_ON_ERROR (do_post d w)"
  let ?w2 = "do_sleep DELAY_ON_ERROR (do_post d ?w1)"
  let ?w3 = "do_sleep DELAY_ON_ERROR (do_post d ?w2)"
  have "send_memory post d 0 w = send_memory post d 1 ?w1"
    using p0 by (simp add: send_memory.simps [of post d 0])
  also have "\<dots> = send_memory post d 2 ?w2"
    using p1 by (simp add: send_memory.simps [of post d 1] do_post_def do_sleep_def)
  also have "\<dots> = send_memory post d 3 ?w3"
    using p2 by (simp add: send_memory.simps [of post d 2] do_post_def do_sleep_def)
  also have "\<dots> = (Inr True, do_post d ?w3)"
    using p3 by (simp add: send_memory.simps [of post d 3] do_post_def do_sleep_def)
  finally show ?thesis
    by (simp add: do_post_def do_sleep_def DELAY_ON_ERROR_def)
qed

theorem rate_limited_then_accepted_witness:
  "send_memory (\<lambda>n d. if n < 3 then Response 429 else Response 200)
       (make_memory_data sample_lower sample_row) 0 world0 =
     (Inr True,
      \<lparr>requests_made = 4,
        events = [Post (make_memory_data sample_lower sample_row), Sleep 120,
                  Post (make_memory_data sample_lower sample_row), Sleep 120,
                  Post (make_memory_data sample_lower sample_row), Sleep 120,
                  Post (make_memory_data sample_lower sample_row)]\<rparr>)"
proof -
  let ?post = "\<lambda>(n::nat) (d::memory_data). if n < 3 then Response 429 else Response 200"
  have p: "\<forall>k<3. ?post (requests_made world0 + k) (make_memory_data sample_lower sample_row) = Response 429"
    by (simp add: world0_def)
  have q: "?post (requests_made world0 + 3) (make_memory_data sample_lower sample_row) = Response 200"
    by (simp add: world0_def)
  from rate_limited_then_accepted [of ?post world0 "make_memory_data sample_lower sample_row", OF p q]
  show ?thesis
    by (simp add: world0_def)
qed

text \<open>
  C4. When the request raises a \<open>RequestException\<close>, or is answered with a status
  other than 200 and 429 (for a record with content), \<open>send_memory\<close> returns
  \<open>False\<close> at once: that one request, no cool-down, no further request.
\<close>

theorem rejected_or_network_failure_not_retried:
  assumes "post (requests_made w) d = RequestException \<or>
           (\<exists>code. post (requests_made w) d = Response code \<and> code \<noteq> 200 \<and> code \<noteq> 429 \<and>
                    memoryContent d \<noteq> None)"
  shows "send_memory post d retry_count w =
           (Inr False, w\<lparr>requests_made := requests_made w + 1, events := events w @ [Post d]\<rparr>)"
  using assms
  by (auto simp add: send_memory.simps [of post d retry_count] do_post_def print_content_def)

theorem rejected_or_network_failure_not_retried_witness:
  "send_memory (\<lambda>n d. Response 404) (make_memory_data sample_lower sample_row) 0 world0 =
     (Inr False, \<lparr>requests_made = 1, events = [Post (make_memory_data sample_lower sample_row)]\<rparr>) \<and>
   send_memory (\<lambda>n d. RequestException) (make_memory_data sample_lower sample_row) 0 world0 =
     (Inr False, \<lparr>requests_made = 1, events = [Post (make_memory_data sample_lower sample_row)]\<rparr>)"
proof -
  have a: "(\<lambda>(n::nat) (d::memory_data). Response 404) (requests_made world0) (make_memory_data sample_lower sample_row)
             = RequestException \<or>
           (\<exists>code. (\<lambda>(n::nat) (d::memory_data). Response 404) (requests_made world0)
                      (make_memory_data sample_lower sample_row) = Response code \<and>
                    code \<noteq> 200 \<and> code \<noteq> 429 \<and> memoryContent (make_memory_data sample_lower sample_row) \<noteq> None)"
    by (simp add: sample_row_def)
  have b: "(\<lambda>(n::nat) (d::memory_data). RequestException) (requests_made world0)
              (make_memory_data sample_lower sample_row) = RequestException \<or>
           (\<exists>code. (\<lambda>(n::nat) (d::memory_data). RequestException) (requests_made world0)
                      (make_memory_data sample_lower sample_row) = Response code \<and>
                    code \<noteq> 200 \<and> code \<noteq> 429 \<and> memoryContent (make_memory_data sample_lower sample_row) \<noteq> None)"
    by simp
  from rejected_or_network_failure_not_retried [OF a, of 0]
       rejected_or_network_failure_not_retried [OF b, of 0]
  show ?thesis
    by (simp add: world0_def)
qed

text \<open>
  C9. \<open>send_memory\<close> is a total function: its recursion terminates because
  \<open>3 - retry_count\<close> decreases at every recursive call (the termination proof of
  the definition). Started with \<open>retry_count = 0\<close> it returns, for every payload and
  every webhook, after at least one and at most four requests, all of them of the same
  payload, with one cool-down less than requests.
\<close>

theorem send_memory_bounded_attempts:
  "\<exists>res w1 k. send_memory post d 0 w = (res, w1) \<and> 1 \<le> k \<and> k \<le> 4 \<and>
      requests_made w1 = requests_made w + k \<and>
      posts_of (events w1) = posts_of (events w) @ replicate k d \<and>
      count_sleeps DELAY_ON_ERROR (events w1) = count_sleeps DELAY_ON_ERROR (events w) + (k - 1)"
proof -
  from send_memory_world [of 0 post d w] obtain k where k: "1 \<le> k" "int k \<le> max 1 (4 - 0)"
    and w: "snd (send_memory post d 0 w) =
            w\<lparr>requests_made := requests_made w + k, events := events w @ attempt_trace d k\<rparr>"
    by blast
  let ?w1 = "w\<lparr>requests_made := requests_made w + k, events := events w @ attempt_trace d k\<rparr>"
  have "send_memory post d 0 w = (fst (send_memory post d 0 w), ?w1)"
    using w by (simp add: prod_eq_iff)
  moreover have "k \<le> 4" using k by simp
  moreover have "requests_made ?w1 = requests_made w + k" by simp
  moreover have "posts_of (events ?w1) = posts_of (events w) @ replicate k d"
    by (simp add: posts_of_attempt_trace)
  moreover have "count_sleeps DELAY_ON_ERROR (events ?w1) =
                 count_sleeps DELAY_ON_ERROR (events w) + (k - 1)"
    by (simp add: cooldowns_attempt_trace)
  ultimately show ?thesis using k(1) by blast
qed

subsection \<open>The run as a whole\<close>

text \<open>
  C5. For every list of fetched records (each with its content, as the data model
  requires), every count and every webhook, the run reaches its final summary: the two
  counters of the summary add up to the number of records, and every record is posted, in
  the order fetched, between one and four times. A delivery that fails (\<open>send_memory\<close>
  returns \<open>False\<close>, whatever the reason) adds one to \<open>fail_count\<close>, leaves
  \<open>success_count\<close> alone, and the loop goes on with the next record.
\<close>

theorem failures_never_abort_the_run:
  assumes "list_all well_formed memories"
  shows "(\<exists>s w1 ks. export_memories ulower post total_count memories w = (Inr s, w1) \<and>
            successful s + failed s = int (length memories) \<and>
            length ks = length memories \<and> list_all (\<lambda>k. 1 \<le> k \<and> k \<le> 4) ks \<and>
            posts_of (events w1) =
              posts_of (events w) @
              concat (map2 (\<lambda>r k. replicate k (make_memory_data ulower r)) memories ks)) \<and>
         (fst (send_memory post (make_memory_data ulower r) 0 w') = Inr False \<longrightarrow>
            (\<exists>c1 w1. loop_body ulower post total_count i r c w' = (Inr c1, w1) \<and>
               fail_count c1 = fail_count c + 1 \<and> success_count c1 = success_count c \<and>
               export_loop ulower post total_count i (r # rs) c w' =
                 export_loop ulower post total_count (i + 1) rs c1 w1))"
proof (intro conjI impI)
  from export_loop_posts [OF assms, of ulower post total_count 1 counters0 w] obtain c1 w1 ks
    where loop: "export_loop ulower post total_count 1 memories counters0 w = (Inr c1, w1)"
      and ks: "length ks = length memories" "list_all (\<lambda>k. 1 \<le> k \<and> k \<le> 4) ks"
      and posts: "posts_of (events w1) =
             posts_of (events w) @ concat (map2 (\<lambda>r k. replicate k (make_memory_data ulower r)) memories ks)"
    by blast
  from export_loop_sum [OF loop]
  have "success_count c1 + fail_count c1 = int (length memories)"
    by (simp add: counters0_def)
  with export_memories_from_loop [OF loop] ks posts
  show "\<exists>s w1 ks. export_memories ulower post total_count memories w = (Inr s, w1) \<and>
            successful s + failed s = int (length memories) \<and>
            length ks = length memories \<and> list_all (\<lambda>k. 1 \<le> k \<and> k \<le> 4) ks \<and>
            posts_of (events w1) =
              posts_of (events w) @
              concat (map2 (\<lambda>r k. replicate k (make_memory_data ulower r)) memories ks)"
    by fastforce
next
  assume "fst (send_memory post (make_memory_data ulower r) 0 w') = Inr False"
  then show "\<exists>c1 w1. loop_body ulower post total_count i r c w' = (Inr c1, w1) \<and>
               fail_count c1 = fail_count c + 1 \<and> success_count c1 = success_count c \<and>
               export_loop ulower post total_count i (r # rs) c w' =
                 export_loop ulower post total_count (i + 1) rs c1 w1"
    by (rule failed_delivery_counted)
qed

theorem failures_never_abort_the_run_witness:
  "(\<exists>s w1 ks. export_memories sample_lower (\<lambda>n d. if n = 0 then Response 404 else Response 200) 2
                 [sample_row, other_row] world0 = (Inr s, w1) \<and>
      successful s + failed s = int (length [sample_row, other_row]) \<and>
      length ks = length [sample_row, other_row] \<and> list_all (\<lambda>k. 1 \<le> k \<and> k \<le> 4) ks \<and>
      posts_of (events w1) =
        posts_of (events world0) @
        concat (map2 (\<lambda>r k. replicate k (make_memory_data sample_lower r)) [sample_row, other_row] ks)) \<and>
   fst (send_memory (\<lambda>n d. if n = 0 then Response 404 else Response 200)
          (make_memory_data sample_lower sample_row) 0 world0) = Inr False \<and>
   (\<exists>c1 w1. loop_body sample_lower (\<lambda>n d. if n = 0 then Response 404 else Response 200) 2 1 sample_row
               counters0 world0 = (Inr c1, w1) \<and>
      fail_count c1 = fail_count counters0 + 1 \<and> success_count c1 = success_count counters0 \<and>
      export_loop sample_lower (\<lambda>n d. if n = 0 then Response 404 else Response 200) 2 1
          (sample_row # [other_row]) counters0 world0 =
        export_loop sample_lower (\<lambda>n d. if n = 0 then Response 404 else Response 200) 2 (1 + 1)
          [other_row] c1 w1)"
proof -
  let ?post = "\<lambda>(n::nat) (d::memory_data). if n = 0 then Response 404 else Response 200"
  have wf: "list_all well_formed [sample_row, other_row]"
    by (simp add: well_formed_def sample_row_def other_row_def)
  have f: "fst (send_memory ?post (make_memory_data sample_lower sample_row) 0 world0) = Inr False"
    by code_simp
  from failures_never_abort_the_run
         [OF wf, where ulower = sample_lower and post = ?post and total_count = 2 and w = world0 and r = sample_row
            and w' = world0 and i = 1 and c = counters0 and rs = "[other_row]"] f
  show ?thesis by simp
qed






text \<open>
  C8. \<open>make_memory_data\<close> is a function of the row alone, with no error result. A row
  with type \<open>Fact\<close>, no confidence, protected, no source becomes a payload with
  \<open>memoryType = fact\<close>, \<open>confidence = 0\<close>, \<open>isProtected = yes\<close> and the source
  \<open>postgresql_export\<close>, the other fields passed through. In the loop, every request
  made for a row carries exactly the payload of that row, and at least one is made.
\<close>

theorem payload_of_record:
  "make_memory_data ulower
     (r\<lparr>row_type := Some ''Fact'', row_confidence := None, row_is_protected := Some True,
        row_source := None\<rparr>) =
     \<lparr> memoryContent = row_content r, memoryType = ''fact'', importance = row_importance r,
       confidence = 0, supportCount = row_support_count r,
       status = (if truthy_str (row_status r) then lower ulower (the (row_status r)) else ''active''),
       isProtected = ''yes'', source = ''postgresql_export'' \<rparr> \<and>
   (\<exists>res w1 k. loop_body ulower post total_count i r c w = (res, w1) \<and> 1 \<le> k \<and> k \<le> 4 \<and>
      posts_of (events w1) = posts_of (events w) @ replicate k (make_memory_data ulower r))"
  using loop_body_posts [of ulower post total_count i r c w]
  by (simp add: make_memory_data_def lower_Fact)




subsection \<open>Rows without content\<close>

text \<open>
  What the script does with a row whose content is \<open>NULL\<close>, which the data model
  excludes: a rejection makes line 72 slice \<open>None\<close>, the \<open>TypeError\<close> leaves
  \<open>send_memory\<close>, and the run ends at that row without a summary.
\<close>

lemma rejected_without_content_raises:
  "send_memory (\<lambda>n d. Response 404) (make_memory_data sample_lower (sample_row\<lparr>row_content := None\<rparr>)) 0 world0 =
     (Inl TypeError,
      \<lparr>requests_made = 1,
        events = [Post (make_memory_data sample_lower (sample_row\<lparr>row_content := None\<rparr>))]\<rparr>)"
  by code_simp

lemma run_without_content_aborts:
  "export_memories sample_lower (\<lambda>n d. Response 404) 2 [sample_row\<lparr>row_content := None\<rparr>, other_row] world0 =
     (Inl TypeError,
      \<lparr>requests_made = 1,
        events = [Post (make_memory_data sample_lower (sample_row\<lparr>row_content := None\<rparr>))]\<rparr>)"
  by code_simp

end
